theory Spec2Isabelle
  imports Main
begin

section \<open>The bookstore schema (\<open>db/Sample_Quries.sql\<close>)\<close>

text \<open>
  Each table is a list of rows, in insertion order. Only the columns that the order
  workflow reads or writes are kept. Money (\<open>DECIMAL(10,2)\<close>) is counted in hundredths,
  so 900.00 is \<open>90000\<close>; a nullable column is an \<open>option\<close> with \<open>None\<close> for NULL.
  Date and timestamp columns and the surrogate keys of OrderDetails, Payments and
  OrderLog are left out: no statement of the workflow reads them.
\<close>

record book_row =
  book_id :: int
  price :: "int option"
  stock :: "int option"

record order_row =
  order_id :: int
  customer_id :: int
  order_status :: string

record detail_row =
  od_order_id :: int
  od_book_id :: int
  od_quantity :: int

record payment_row =
  pay_order_id :: int
  pay_method :: string
  pay_amount :: "int option"

record log_row =
  log_order_id :: "int option"
  log_method :: string

text \<open>
  \<open>next_order_id\<close> is the \<open>AUTO_INCREMENT\<close> counter of Orders.OrderID; \<open>customers\<close>
  holds the CustomerID column of Customers.
\<close>

record db =
  customers :: "int list"
  books :: "book_row list"
  orders :: "order_row list"
  order_details :: "detail_row list"
  payments :: "payment_row list"
  order_log :: "log_row list"
  next_order_id :: int

text \<open>
  The server errors the workflow can meet, with the symbolic code the driver puts in
  \<open>err.code\<close> and the leading words of the server's text in \<open>err.message\<close>.
\<close>

datatype sql_error =
    ER_NO_REFERENCED_ROW_2
  | ER_CHECK_CONSTRAINT_VIOLATED
  | ER_WARN_DATA_OUT_OF_RANGE
  | ER_DATA_TOO_LONG
  | ER_DUP_ENTRY
  | ER_BAD_FIELD_ERROR

fun err_code :: "sql_error \<Rightarrow> string" where
  "err_code ER_NO_REFERENCED_ROW_2 = ''ER_NO_REFERENCED_ROW_2''"
| "err_code ER_CHECK_CONSTRAINT_VIOLATED = ''ER_CHECK_CONSTRAINT_VIOLATED''"
| "err_code ER_WARN_DATA_OUT_OF_RANGE = ''ER_WARN_DATA_OUT_OF_RANGE''"
| "err_code ER_DATA_TOO_LONG = ''ER_DATA_TOO_LONG''"
| "err_code ER_DUP_ENTRY = ''ER_DUP_ENTRY''"
| "err_code ER_BAD_FIELD_ERROR = ''ER_BAD_FIELD_ERROR''"

fun err_message :: "sql_error \<Rightarrow> string" where
  "err_message ER_NO_REFERENCED_ROW_2 =
     ''Cannot add or update a child row: a foreign key constraint fails''"
| "err_message ER_CHECK_CONSTRAINT_VIOLATED = ''Check constraint is violated.''"
| "err_message ER_WARN_DATA_OUT_OF_RANGE = ''Out of range value for column''"
| "err_message ER_DATA_TOO_LONG = ''Data too long for column''"
| "err_message ER_DUP_ENTRY = ''Duplicate entry for key''"
| "err_message ER_BAD_FIELD_ERROR = ''Unknown column in field list''"

subsection \<open>Column types\<close>

text \<open>\<open>INT\<close> is a signed 32-bit integer; \<open>DECIMAL(10,2)\<close> has ten digits in all.
  The script needs a MySQL 8 server (expression defaults, \<open>CHECK\<close> constraints), which
  enforces \<open>CHECK\<close> constraints and runs in strict mode unless told otherwise: a value
  outside its type is an error, not a silent clamp.\<close>

definition int_ok :: "int \<Rightarrow> bool" where
  "int_ok v = (- 2147483648 \<le> v \<and> v \<le> 2147483647)"

definition decimal_10_2_ok :: "int option \<Rightarrow> bool" where
  "decimal_10_2_ok v = (case v of None \<Rightarrow> True | Some a \<Rightarrow> - 9999999999 \<le> a \<and> a \<le> 9999999999)"

text \<open>\<open>VARCHAR(50)\<close>: a longer text is an error, unless all that exceeds the 50
  characters is spaces, which are cut off.\<close>

definition too_long_50 :: "string \<Rightarrow> bool" where
  "too_long_50 s = list_ex (\<lambda>ch. ch \<noteq> CHR '' '') (drop 50 s)"

text \<open>The payment methods, as the handlers list them and as \<open>CHECK (PaymentMethod IN (...))\<close>
  of Payments names them. The check compares the exact spelling, as the handlers' note
  on their exception list says of the database check.\<close>

definition validPaymentMethods :: "string list" where
  "validPaymentMethods = [''Cash'', ''Card'', ''JazzCash'', ''EasyPaisa'', ''SadaPay'']"

subsection \<open>The statements of PlaceOrder\<close>

text \<open>\<open>INSERT INTO Orders (CustomerID) VALUES (p_CustomerID)\<close>: the foreign key to
  Customers is checked, OrderID comes from the counter, Status takes its default
  \<open>'Pending'\<close>. The result carries \<open>LAST_INSERT_ID()\<close>. A refused insert leaves the
  counter where it was (a server may skip a key there; nothing below depends on it).\<close>

definition insert_Orders :: "db \<Rightarrow> int \<Rightarrow> sql_error + (db \<times> int)" where
  "insert_Orders d p_CustomerID =
     (if \<not> int_ok (next_order_id d) then Inl ER_DUP_ENTRY
      else if p_CustomerID \<notin> set (customers d) then Inl ER_NO_REFERENCED_ROW_2
      else Inr (d\<lparr>orders := orders d @
                      [\<lparr>order_id = next_order_id d, customer_id = p_CustomerID,
                        order_status = ''Pending''\<rparr>],
                    next_order_id := next_order_id d + 1\<rparr>,
                next_order_id d))"

text \<open>\<open>INSERT INTO OrderDetails (OrderID, BookID, Quantity)\<close>: \<open>CHECK (Quantity > 0)\<close>
  and the foreign keys to Orders and Books.\<close>

definition insert_OrderDetails :: "db \<Rightarrow> int \<Rightarrow> int \<Rightarrow> int \<Rightarrow> sql_error + db" where
  "insert_OrderDetails d v_OrderID p_BookID p_Quantity =
     (if \<not> p_Quantity > 0 then Inl ER_CHECK_CONSTRAINT_VIOLATED
      else if v_OrderID \<notin> set (map order_id (orders d)) then Inl ER_NO_REFERENCED_ROW_2
      else if p_BookID \<notin> set (map book_id (books d)) then Inl ER_NO_REFERENCED_ROW_2
      else Inr (d\<lparr>order_details := order_details d @
                      [\<lparr>od_order_id = v_OrderID, od_book_id = p_BookID,
                        od_quantity = p_Quantity\<rparr>]\<rparr>))"

text \<open>\<open>UPDATE Books SET Stock = Stock - p_Quantity
  WHERE BookID = p_BookID AND Stock >= p_Quantity\<close>: a row that does not satisfy the
  condition (also one whose Stock is NULL) is left as it is, and that is no error.\<close>

definition stock_row :: "int \<Rightarrow> int \<Rightarrow> book_row \<Rightarrow> book_row" where
  "stock_row p_BookID p_Quantity b =
     (case stock b of
        Some s \<Rightarrow> if book_id b = p_BookID \<and> s \<ge> p_Quantity
                  then b\<lparr>stock := Some (s - p_Quantity)\<rparr> else b
      | None \<Rightarrow> b)"

definition update_Stock :: "db \<Rightarrow> int \<Rightarrow> int \<Rightarrow> db" where
  "update_Stock d p_BookID p_Quantity = d\<lparr>books := map (stock_row p_BookID p_Quantity) (books d)\<rparr>"

text \<open>\<open>SELECT Price INTO v_BookPrice FROM Books WHERE BookID = p_BookID\<close>; the variable
  keeps its initial NULL when no row is found.\<close>

definition select_Price :: "db \<Rightarrow> int \<Rightarrow> int option" where
  "select_Price d p_BookID =
     (case find (\<lambda>b. book_id b = p_BookID) (books d) of None \<Rightarrow> None | Some b \<Rightarrow> price b)"

text \<open>\<open>v_BookPrice * p_Quantity\<close>: NULL times anything is NULL.\<close>

definition sql_times :: "int option \<Rightarrow> int \<Rightarrow> int option" where
  "sql_times p q = (case p of None \<Rightarrow> None | Some a \<Rightarrow> Some (a * q))"

text \<open>\<open>INSERT INTO Payments (OrderID, PaymentMethod, Amount)\<close>: the two CHECK
  constraints (a NULL amount passes) and the foreign key to Orders.\<close>

definition insert_Payments :: "db \<Rightarrow> int \<Rightarrow> string \<Rightarrow> int option \<Rightarrow> sql_error + db" where
  "insert_Payments d v_OrderID p_PaymentMethod v_TotalAmount =
     (if p_PaymentMethod \<notin> set validPaymentMethods then Inl ER_CHECK_CONSTRAINT_VIOLATED
      else if (case v_TotalAmount of None \<Rightarrow> False | Some a \<Rightarrow> \<not> a \<ge> 0)
        then Inl ER_CHECK_CONSTRAINT_VIOLATED
      else if v_OrderID \<notin> set (map order_id (orders d)) then Inl ER_NO_REFERENCED_ROW_2
      else Inr (d\<lparr>payments := payments d @
                      [\<lparr>pay_order_id = v_OrderID, pay_method = p_PaymentMethod,
                        pay_amount = v_TotalAmount\<rparr>]\<rparr>))"

text \<open>\<open>INSERT INTO OrderLog (OrderID, PaymentMethod)\<close>: the foreign key to Orders.\<close>

definition insert_OrderLog :: "db \<Rightarrow> int \<Rightarrow> string \<Rightarrow> sql_error + db" where
  "insert_OrderLog d v_OrderID p_PaymentMethod =
     (if v_OrderID \<notin> set (map order_id (orders d)) then Inl ER_NO_REFERENCED_ROW_2
      else Inr (d\<lparr>order_log := order_log d @
                      [\<lparr>log_order_id = Some v_OrderID, log_method = p_PaymentMethod\<rparr>]\<rparr>))"

subsection \<open>Transactions on a connection\<close>

text \<open>
  A connection sees the committed database, or the working copy of its open
  transaction. \<open>START TRANSACTION\<close> first commits a transaction that is still open;
  \<open>COMMIT\<close> publishes the working copy. The pool hands the same connection to each
  request in turn, requests being served one after the other.
\<close>

record conn =
  committed :: db
  pending :: "db option"

definition session_view :: "conn \<Rightarrow> db" where
  "session_view c = (case pending c of None \<Rightarrow> committed c | Some w \<Rightarrow> w)"

definition start_transaction :: "conn \<Rightarrow> conn" where
  "start_transaction c = \<lparr>committed = session_view c, pending = Some (session_view c)\<rparr>"

text \<open>The body of PlaceOrder between \<open>START TRANSACTION\<close> and \<open>COMMIT\<close>, on the
  working copy. A failing statement ends the procedure there: it declares no handler.
  The result is the error or the final \<open>SELECT v_OrderID, v_TotalAmount\<close>, with the
  working copy as the procedure left it.\<close>

definition PlaceOrder_body ::
  "db \<Rightarrow> int \<Rightarrow> int \<Rightarrow> int \<Rightarrow> string \<Rightarrow> (sql_error + (int \<times> int option)) \<times> db" where
  "PlaceOrder_body d p_CustomerID p_BookID p_Quantity p_PaymentMethod =
     (case insert_Orders d p_CustomerID of
        Inl e \<Rightarrow> (Inl e, d)
      | Inr (d1, v_OrderID) \<Rightarrow>
          (case insert_OrderDetails d1 v_OrderID p_BookID p_Quantity of
             Inl e \<Rightarrow> (Inl e, d1)
           | Inr d2 \<Rightarrow>
               let d3 = update_Stock d2 p_BookID p_Quantity;
                   v_BookPrice = select_Price d3 p_BookID;
                   v_TotalAmount = sql_times v_BookPrice p_Quantity
               in if \<not> decimal_10_2_ok v_TotalAmount then (Inl ER_WARN_DATA_OUT_OF_RANGE, d3)
                  else (case insert_Payments d3 v_OrderID p_PaymentMethod v_TotalAmount of
                          Inl e \<Rightarrow> (Inl e, d3)
                        | Inr d4 \<Rightarrow>
                            (case insert_OrderLog d4 v_OrderID p_PaymentMethod of
                               Inl e \<Rightarrow> (Inl e, d4)
                             | Inr d5 \<Rightarrow> (Inr (v_OrderID, v_TotalAmount), d5)))))"

text \<open>\<open>CALL PlaceOrder(?, ?, ?, ?)\<close> on a connection. An argument outside \<open>INT\<close>,
  or too long for \<open>VARCHAR(50)\<close>, is refused before the body runs. After an error the
  transaction stays open with what the body had written; after \<open>COMMIT\<close> the working
  copy is the committed database.\<close>

definition PlaceOrder ::
  "conn \<Rightarrow> int \<Rightarrow> int \<Rightarrow> int \<Rightarrow> string \<Rightarrow> (sql_error + (int \<times> int option)) \<times> conn" where
  "PlaceOrder c p_CustomerID p_BookID p_Quantity p_PaymentMethod =
     (if \<not> (int_ok p_CustomerID \<and> int_ok p_BookID \<and> int_ok p_Quantity)
      then (Inl ER_WARN_DATA_OUT_OF_RANGE, c)
      else if too_long_50 p_PaymentMethod then (Inl ER_DATA_TOO_LONG, c)
      else
        let c1 = start_transaction c in
        (case PlaceOrder_body (session_view c1) p_CustomerID p_BookID p_Quantity p_PaymentMethod of
           (Inl e, w) \<Rightarrow> (Inl e, c1\<lparr>pending := Some w\<rparr>)
         | (Inr r, w) \<Rightarrow> (Inr r, \<lparr>committed = w, pending = None\<rparr>)))"

section \<open>The HTTP handlers\<close>

text \<open>
  A request body after \<open>express.json()\<close>. A field that is absent, \<open>null\<close> or not of
  the expected kind is \<open>None\<close>; numeric fields hold integers, on which \<open>parseInt\<close> is
  the identity. The lowercasing middleware leaves \<open>paymentMethod\<close> and \<open>status\<close>
  alone (both are on its exception list) and only touches string values.
\<close>

record order_item =
  bookId :: "int option"
  quantity :: "int option"

record order_request =
  customerId :: "int option"
  items :: "order_item list option"
  paymentMethod :: "string option"

record response =
  status_code :: nat
  body :: "(string \<times> string) list"

text \<open>JavaScript's \<open>!v\<close> on the fields above.\<close>

definition falsy_num :: "int option \<Rightarrow> bool" where
  "falsy_num v = (case v of None \<Rightarrow> True | Some n \<Rightarrow> n = 0)"

definition falsy_str :: "string option \<Rightarrow> bool" where
  "falsy_str v = (case v of None \<Rightarrow> True | Some s \<Rightarrow> s = [])"

text \<open>\<open>!items || !Array.isArray(items) || items.length === 0\<close>\<close>

definition no_items :: "order_item list option \<Rightarrow> bool" where
  "no_items v = (case v of None \<Rightarrow> True | Some its \<Rightarrow> its = [])"

text \<open>\<open>!item.bookId || !item.quantity || item.quantity <= 0\<close>\<close>

definition bad_item :: "order_item \<Rightarrow> bool" where
  "bad_item item =
     (falsy_num (bookId item) \<or> falsy_num (quantity item) \<or>
      (case quantity item of None \<Rightarrow> False | Some q \<Rightarrow> q \<le> 0))"

text \<open>\<open>String.prototype.includes\<close>\<close>

fun starts_with :: "string \<Rightarrow> string \<Rightarrow> bool" where
  "starts_with s [] = True"
| "starts_with [] (p # ps) = False"
| "starts_with (c # cs) (p # ps) = (c = p \<and> starts_with cs ps)"

fun str_includes :: "string \<Rightarrow> string \<Rightarrow> bool" where
  "str_includes [] p = (p = [])"
| "str_includes (c # cs) p = (starts_with (c # cs) p \<or> str_includes cs p)"

definition json_error :: "nat \<Rightarrow> string \<Rightarrow> response" where
  "json_error st msg = \<lparr>status_code = st, body = [(''error'', msg)]\<rparr>"

definition json_failure :: "string \<Rightarrow> string \<Rightarrow> response" where
  "json_failure msg details = \<lparr>status_code = 500, body = [(''error'', msg), (''details'', details)]\<rparr>"

definition json_message :: "nat \<Rightarrow> string \<Rightarrow> response" where
  "json_message st msg = \<lparr>status_code = st, body = [(''message'', msg)]\<rparr>"

definition required_fields_msg :: string where
  "required_fields_msg = ''Customer ID, items array, and payment method are required''"

definition invalid_method_msg :: string where
  "invalid_method_msg =
     ''Invalid payment method. Must be one of: Cash, Card, JazzCash, EasyPaisa, SadaPay''"

definition bad_item_msg :: string where
  "bad_item_msg = ''Each item must have bookId and quantity > 0''"

subsection \<open>POST /api/orders, MySQL server\<close>

text \<open>The loop \<open>for (const item of items) await pool.query('CALL PlaceOrder(?, ?, ?, ?)', ...)\<close>:
  one call per item, stopping at the first call that throws. An item without both
  numbers would send \<open>NaN\<close>, which the server cannot read as a value.\<close>

fun place_items :: "conn \<Rightarrow> int \<Rightarrow> order_item list \<Rightarrow> string \<Rightarrow> sql_error option \<times> conn" where
  "place_items c cid [] pm = (None, c)"
| "place_items c cid (item # rest) pm =
     (case (bookId item, quantity item) of
        (Some b, Some q) \<Rightarrow>
          (case PlaceOrder c cid b q pm of
             (Inl e, c') \<Rightarrow> (Some e, c')
           | (Inr r, c') \<Rightarrow> place_items c' cid rest pm)
      | _ \<Rightarrow> (Some ER_BAD_FIELD_ERROR, c))"

text \<open>The \<open>catch\<close> block of the handler.\<close>

definition order_error_response :: "sql_error \<Rightarrow> response" where
  "order_error_response e =
     (if str_includes (err_message e) ''insufficient stock'' \<or> err_code e = ''ER_ROW_IS_REFERENCED_2''
      then json_error 400 ''Insufficient stock or data conflict.''
      else json_failure ''Failed to place order'' (err_message e))"

text \<open>The handler. \<open>pool\<close> is \<open>None\<close> until \<open>connectDb\<close> has assigned it; the server
  listens only after that (\<open>connectDb().then(() => app.listen(...))\<close>), so a request is
  always served with \<open>Some\<close> connection.\<close>

definition post_orders :: "conn option \<Rightarrow> order_request \<Rightarrow> response \<times> conn option" where
  "post_orders pool req =
     (case pool of
        None \<Rightarrow> (json_error 503 ''Database not connected'', pool)
      | Some c \<Rightarrow>
          if falsy_num (customerId req) \<or> no_items (items req) \<or> falsy_str (paymentMethod req)
          then (json_error 400 required_fields_msg, pool)
          else
            (case (customerId req, items req, paymentMethod req) of
               (Some cid, Some its, Some pm) \<Rightarrow>
                 if pm \<notin> set validPaymentMethods then (json_error 400 invalid_method_msg, pool)
                 else if list_ex bad_item its then (json_error 400 bad_item_msg, pool)
                 else
                   (case place_items c cid its pm of
                      (None, c') \<Rightarrow> (json_message 201 ''Order placed successfully'', Some c')
                    | (Some e, c') \<Rightarrow> (order_error_response e, Some c'))
             | _ \<Rightarrow> (json_error 400 required_fields_msg, pool)))"

subsection \<open>POST /api/orders, SQL Server variant (server.js)\<close>

text \<open>
  This handler sends all items in one \<open>request.execute('dbo.PlaceOrder')\<close>. That
  procedure is not part of the repository's SQL script, so it is a parameter \<open>exec\<close>:
  from the storage state, the customer, the payment method and the two columns of
  values it returns the error thrown, if any, and the new state.
\<close>

record mssql_error =
  err_number :: int
  err_text :: string

definition post_orders_mssql ::
  "('p \<Rightarrow> int \<Rightarrow> string \<Rightarrow> int list \<Rightarrow> int list \<Rightarrow> mssql_error option \<times> 'p) \<Rightarrow>
     'p option \<Rightarrow> order_request \<Rightarrow> response \<times> 'p option" where
  "post_orders_mssql exec pool req =
     (case pool of
        None \<Rightarrow> (json_error 503 ''Database not connected'', pool)
      | Some c \<Rightarrow>
          if falsy_num (customerId req) \<or> no_items (items req) \<or> falsy_str (paymentMethod req)
          then (json_error 400 required_fields_msg, pool)
          else
            (case (customerId req, items req, paymentMethod req) of
               (Some cid, Some its, Some pm) \<Rightarrow>
                 if pm \<notin> set validPaymentMethods then (json_error 400 invalid_method_msg, pool)
                 else if list_ex bad_item its then (json_error 400 bad_item_msg, pool)
                 else
                   (case exec c cid pm (List.map_filter bookId its) (List.map_filter quantity its) of
                      (None, c') \<Rightarrow> (json_message 201 ''Order placed successfully'', Some c')
                    | (Some e, c') \<Rightarrow>
                        (if str_includes (err_text e) ''insufficient stock'' \<or> err_number e = 547
                         then json_error 400 ''Insufficient stock or data conflict.''
                         else json_failure ''Failed to place order'' (err_text e), Some c'))
             | _ \<Rightarrow> (json_error 400 required_fields_msg, pool)))"

subsection \<open>PUT /api/orders/:id/status, MySQL server\<close>

text \<open>\<open>UPDATE Orders SET Status = ? WHERE OrderID = ?\<close>. Status is \<open>VARCHAR(50)\<close>:
  storing a text that is too long in a matching row is an error.\<close>

definition update_Status :: "string \<Rightarrow> int \<Rightarrow> db \<Rightarrow> sql_error + db" where
  "update_Status new_status oid d =
     (if list_ex (\<lambda>r. order_id r = oid) (orders d) \<and> too_long_50 new_status
      then Inl ER_DATA_TOO_LONG
      else Inr (d\<lparr>orders := map (\<lambda>r. if order_id r = oid
                                       then r\<lparr>order_status := take 50 new_status\<rparr> else r)
                                (orders d)\<rparr>))"

text \<open>A statement sent with \<open>pool.query\<close> outside a procedure: committed at once, unless
  the connection still has a transaction open, whose working copy it then changes.\<close>

definition pool_query :: "conn \<Rightarrow> (db \<Rightarrow> sql_error + db) \<Rightarrow> sql_error option \<times> conn" where
  "pool_query c stmt =
     (case stmt (session_view c) of
        Inl e \<Rightarrow> (Some e, c)
      | Inr d \<Rightarrow>
          (None, case pending c of None \<Rightarrow> c\<lparr>committed := d\<rparr> | Some w \<Rightarrow> c\<lparr>pending := Some d\<rparr>))"

text \<open>The handler; \<open>order_id_param\<close> is \<open>parseInt(req.params.id)\<close>, \<open>None\<close> for \<open>NaN\<close>.\<close>

definition put_order_status ::
  "conn option \<Rightarrow> int option \<Rightarrow> string option \<Rightarrow> response \<times> conn option" where
  "put_order_status pool order_id_param new_status =
     (case pool of
        None \<Rightarrow> (json_error 503 ''Database not connected'', pool)
      | Some c \<Rightarrow>
          (case (order_id_param, new_status) of
             (Some oid, Some s) \<Rightarrow>
               if s = [] then (json_error 400 ''Valid order ID and status are required'', pool)
               else
                 (case pool_query c (update_Status s oid) of
                    (None, c') \<Rightarrow>
                      (\<lparr>status_code = 200, body = [(''message'', ''Order status updated successfully'')]\<rparr>,
                       Some c')
                  | (Some e, c') \<Rightarrow>
                      (json_failure ''Failed to update order status'' (err_message e), Some c'))
           | _ \<Rightarrow> (json_error 400 ''Valid order ID and status are required'', pool)))"

section \<open>Reading the tables\<close>

text \<open>The rows of one order in each table, and the order keys present.\<close>

definition order_ids :: "db \<Rightarrow> int list" where
  "order_ids d = map order_id (orders d)"

definition details_of :: "db \<Rightarrow> int \<Rightarrow> detail_row list" where
  "details_of d oid = filter (\<lambda>r. od_order_id r = oid) (order_details d)"

definition payments_of :: "db \<Rightarrow> int \<Rightarrow> payment_row list" where
  "payments_of d oid = filter (\<lambda>r. pay_order_id r = oid) (payments d)"

definition log_of :: "db \<Rightarrow> int \<Rightarrow> log_row list" where
  "log_of d oid = filter (\<lambda>r. log_order_id r = Some oid) (order_log d)"

definition stock_of :: "db \<Rightarrow> int \<Rightarrow> int option list" where
  "stock_of d bid = map stock (filter (\<lambda>b. book_id b = bid) (books d))"

text \<open>\<open>SUM\<close> skips NULLs and is NULL when nothing is left.\<close>

definition sql_sum :: "int option list \<Rightarrow> int option" where
  "sql_sum vs = (case List.map_filter id vs of [] \<Rightarrow> None | a # as \<Rightarrow> Some (sum_list (a # as)))"


text \<open>
  The schema's own guarantees, as far as the workflow relies on them: the primary keys
  of Books and Orders, the counter above every OrderID in use, the foreign keys from
  OrderDetails, Payments and OrderLog to Orders, and \<open>CHECK (Price >= 0)\<close>.
\<close>

definition wf_db :: "db \<Rightarrow> bool" where
  "wf_db d =
     (distinct (map book_id (books d)) \<and>
      distinct (order_ids d) \<and>
      list_all (\<lambda>i. i < next_order_id d) (order_ids d) \<and>
      list_all (\<lambda>r. od_order_id r \<in> set (order_ids d)) (order_details d) \<and>
      list_all (\<lambda>r. pay_order_id r \<in> set (order_ids d)) (payments d) \<and>
      list_all (\<lambda>r. case log_order_id r of None \<Rightarrow> True | Some i \<Rightarrow> i \<in> set (order_ids d))
               (order_log d) \<and>
      list_all (\<lambda>b. case price b of None \<Rightarrow> True | Some a \<Rightarrow> 0 \<le> a) (books d))"

text \<open>A small database in the shape of the script's sample rows: the two books it
  inserts (keyed 1 and 2, priced 1200.00 and 900.00, 30 and 100 in stock), three
  customers, and three orders with one line, one payment and one log entry each.\<close>

definition sample_db :: db where
  "sample_db =
     \<lparr>customers = [1, 2, 3],
      books = [\<lparr>book_id = 1, price = Some 120000, stock = Some 30\<rparr>,
               \<lparr>book_id = 2, price = Some 90000, stock = Some 100\<rparr>],
      orders = [\<lparr>order_id = 1, customer_id = 1, order_status = ''Completed''\<rparr>,
                \<lparr>order_id = 2, customer_id = 2, order_status = ''Pending''\<rparr>,
                \<lparr>order_id = 3, customer_id = 3, order_status = ''Completed''\<rparr>],
      order_details = [\<lparr>od_order_id = 1, od_book_id = 1, od_quantity = 1\<rparr>,
                       \<lparr>od_order_id = 2, od_book_id = 2, od_quantity = 2\<rparr>,
                       \<lparr>od_order_id = 3, od_book_id = 2, od_quantity = 1\<rparr>],
      payments = [\<lparr>pay_order_id = 1, pay_method = ''Card'', pay_amount = Some 250000\<rparr>,
                  \<lparr>pay_order_id = 2, pay_method = ''JazzCash'', pay_amount = Some 240000\<rparr>,
                  \<lparr>pay_order_id = 3, pay_method = ''SadaPay'', pay_amount = Some 90000\<rparr>],
      order_log = [\<lparr>log_order_id = Some 1, log_method = ''Card''\<rparr>,
                   \<lparr>log_order_id = Some 2, log_method = ''JazzCash''\<rparr>,
                   \<lparr>log_order_id = Some 3, log_method = ''SadaPay''\<rparr>],
      next_order_id = 4\<rparr>"

definition sample_conn :: conn where
  "sample_conn = \<lparr>committed = sample_db, pending = None\<rparr>"

text \<open>A database with one very expensive book: 60,000,000.00 a copy, five in stock.\<close>

definition costly_db :: db where
  "costly_db =
     \<lparr>customers = [1],
      books = [\<lparr>book_id = 1, price = Some 6000000000, stock = Some 5\<rparr>],
      orders = [], order_details = [], payments = [], order_log = [],
      next_order_id = 1\<rparr>"

text \<open>Requests used as concrete inputs below.\<close>

definition order_for :: "int \<Rightarrow> (int \<times> int) list \<Rightarrow> string \<Rightarrow> order_request" where
  "order_for cid lines pm =
     \<lparr>customerId = Some cid,
      items = Some (map (\<lambda>(b, q). \<lparr>bookId = Some b, quantity = Some q\<rparr>) lines),
      paymentMethod = Some pm\<rparr>"

definition one_unit_request :: order_request where
  "one_unit_request = order_for 1 [(2, 1)] ''Cash''"

definition over_stock_request :: order_request where
  "over_stock_request = order_for 1 [(2, 101)] ''Cash''"

definition missing_book_request :: order_request where
  "missing_book_request = order_for 1 [(99, 1)] ''Cash''"


definition bitcoin_request :: order_request where
  "bitcoin_request = order_for 1 [(2, 1)] ''Bitcoin''"

definition two_item_request :: order_request where
  "two_item_request = order_for 1 [(1, 2), (2, 3)] ''Card''"

text \<open>The connection after customer 1 has ordered one copy of book 2, paying cash,
  on the sample database: the new order is number 4.\<close>

definition after_one_unit :: conn where
  "after_one_unit =
     \<lparr>committed =
        sample_db\<lparr>orders := orders sample_db @
                      [\<lparr>order_id = 4, customer_id = 1, order_status = ''Pending''\<rparr>],
                  next_order_id := 5,
                  order_details := order_details sample_db @
                      [\<lparr>od_order_id = 4, od_book_id = 2, od_quantity = 1\<rparr>],
                  books := [\<lparr>book_id = 1, price = Some 120000, stock = Some 30\<rparr>,
                            \<lparr>book_id = 2, price = Some 90000, stock = Some 99\<rparr>],
                  payments := payments sample_db @
                      [\<lparr>pay_order_id = 4, pay_method = ''Cash'', pay_amount = Some 90000\<rparr>],
                  order_log := order_log sample_db @
                      [\<lparr>log_order_id = Some 4, log_method = ''Cash''\<rparr>]\<rparr>,
      pending = None\<rparr>"

section \<open>The valid request of the interface description\<close>

text \<open>
  These predicates follow the words of the specification, not the code:
  a valid request names an existing customer, has at least one item, each with a
  quantity above 0 that the book's stock covers, and one of the five payment methods.
\<close>

definition in_stock :: "db \<Rightarrow> order_item \<Rightarrow> bool" where
  "in_stock d item =
     (case (bookId item, quantity item) of
        (Some b, Some q) \<Rightarrow>
          0 < q \<and>
          list_ex (\<lambda>bk. book_id bk = b \<and> (case stock bk of None \<Rightarrow> False | Some s \<Rightarrow> q \<le> s))
                  (books d)
      | _ \<Rightarrow> False)"

definition request_as_specified :: "db \<Rightarrow> order_request \<Rightarrow> bool" where
  "request_as_specified d req =
     (case (customerId req, items req, paymentMethod req) of
        (Some cu, Some its, Some pm) \<Rightarrow>
          cu \<in> set (customers d) \<and> its \<noteq> [] \<and> list_all (in_stock d) its \<and>
          pm \<in> set validPaymentMethods
      | _ \<Rightarrow> False)"

text \<open>
  What the column types add: keys are not 0 and every number fits \<open>INT\<close>, each line
  amount fits \<open>DECIMAL(10,2)\<close>, and the OrderID counter has a key left for every item.
\<close>

definition item_in_range :: "db \<Rightarrow> order_item \<Rightarrow> bool" where
  "item_in_range d item =
     (case (bookId item, quantity item) of
        (Some b, Some q) \<Rightarrow>
          b \<noteq> 0 \<and> int_ok b \<and> int_ok q \<and> decimal_10_2_ok (sql_times (select_Price d b) q)
      | _ \<Rightarrow> False)"

definition request_in_range :: "db \<Rightarrow> order_request \<Rightarrow> bool" where
  "request_in_range d req =
     (case (customerId req, items req) of
        (Some cu, Some its) \<Rightarrow>
          cu \<noteq> 0 \<and> int_ok cu \<and> list_all (item_in_range d) its \<and>
          - 2147483648 \<le> next_order_id d \<and> next_order_id d + int (length its) \<le> 2147483648
      | _ \<Rightarrow> False)"

definition valid_order_request :: "db \<Rightarrow> order_request \<Rightarrow> bool" where
  "valid_order_request d req = (request_as_specified d req \<and> request_in_range d req)"

text \<open>Two copies of the expensive book: in stock, but 120,000,000.00 in all.\<close>

definition costly_request :: order_request where
  "costly_request = order_for 1 [(1, 2)] ''Cash''"

definition costly_conn :: conn where
  "costly_conn = \<lparr>committed = costly_db, pending = None\<rparr>"

section \<open>What a call of PlaceOrder does\<close>

text \<open>
  \<open>can_place\<close> collects the checks of the five statements and of the assignment to
  \<open>v_TotalAmount\<close>; \<open>placed\<close> is the database after all of them have run. Both are
  derived from the definitions above (\<open>PlaceOrder_body_ok\<close>, \<open>PlaceOrder_body_Inr\<close>).
\<close>

definition placed :: "db \<Rightarrow> int \<Rightarrow> int \<Rightarrow> int \<Rightarrow> string \<Rightarrow> db" where
  "placed d p_CustomerID p_BookID p_Quantity p_PaymentMethod =
     d\<lparr>orders := orders d @
          [\<lparr>order_id = next_order_id d, customer_id = p_CustomerID, order_status = ''Pending''\<rparr>],
       next_order_id := next_order_id d + 1,
       order_details := order_details d @
          [\<lparr>od_order_id = next_order_id d, od_book_id = p_BookID, od_quantity = p_Quantity\<rparr>],
       books := map (stock_row p_BookID p_Quantity) (books d),
       payments := payments d @
          [\<lparr>pay_order_id = next_order_id d, pay_method = p_PaymentMethod,
            pay_amount = sql_times (select_Price d p_BookID) p_Quantity\<rparr>],
       order_log := order_log d @
          [\<lparr>log_order_id = Some (next_order_id d), log_method = p_PaymentMethod\<rparr>]\<rparr>"

definition can_place :: "db \<Rightarrow> int \<Rightarrow> int \<Rightarrow> int \<Rightarrow> string \<Rightarrow> bool" where
  "can_place d p_CustomerID p_BookID p_Quantity p_PaymentMethod =
     (int_ok (next_order_id d) \<and> p_CustomerID \<in> set (customers d) \<and> 0 < p_Quantity \<and>
      p_BookID \<in> set (map book_id (books d)) \<and>
      decimal_10_2_ok (sql_times (select_Price d p_BookID) p_Quantity) \<and>
      p_PaymentMethod \<in> set validPaymentMethods \<and>
      (case sql_times (select_Price d p_BookID) p_Quantity of None \<Rightarrow> True | Some a \<Rightarrow> 0 \<le> a))"

lemma stock_row_id [simp]: "book_id (stock_row b q r) = book_id r"
  by (simp add: stock_row_def split: option.splits)

lemma stock_row_price [simp]: "price (stock_row b q r) = price r"
  by (simp add: stock_row_def split: option.splits)

lemma find_stock_row:
  "find (\<lambda>r. book_id r = k) (map (stock_row b q) bs) =
     map_option (stock_row b q) (find (\<lambda>r. book_id r = k) bs)"
  by (induction bs) simp_all

lemma select_Price_books:
  "books d' = map (stock_row b q) (books d) \<Longrightarrow> select_Price d' k = select_Price d k"
  by (simp add: select_Price_def find_stock_row split: option.splits)

lemma PlaceOrder_body_ok:
  "can_place d cu b q pm \<Longrightarrow>
   PlaceOrder_body d cu b q pm =
     (Inr (next_order_id d, sql_times (select_Price d b) q), placed d cu b q pm)"
  unfolding PlaceOrder_body_def can_place_def placed_def insert_Orders_def insert_OrderDetails_def
    insert_Payments_def insert_OrderLog_def Let_def update_Stock_def
  by (simp add: select_Price_books split: option.splits)

lemma PlaceOrder_body_Inr:
  "PlaceOrder_body d cu b q pm = (Inr r, w) \<Longrightarrow> can_place d cu b q pm"
  unfolding PlaceOrder_body_def can_place_def insert_Orders_def insert_OrderDetails_def
    insert_Payments_def insert_OrderLog_def Let_def update_Stock_def
  by (simp add: select_Price_books split: option.splits if_splits)

lemma PlaceOrder_body_orders:
  "orders (snd (PlaceOrder_body d cu b q pm)) = orders d \<or>
   orders (snd (PlaceOrder_body d cu b q pm)) = orders d @
          [\<lparr>order_id = next_order_id d, customer_id = cu, order_status = ''Pending''\<rparr>]"
  unfolding PlaceOrder_body_def insert_Orders_def insert_OrderDetails_def
    insert_Payments_def insert_OrderLog_def Let_def update_Stock_def
  by (simp split: option.splits if_splits)

lemma session_view_start [simp]: "session_view (start_transaction c) = session_view c"
  by (simp add: start_transaction_def session_view_def)

lemma valid_method_fits: "pm \<in> set validPaymentMethods \<Longrightarrow> \<not> too_long_50 pm"
  by (auto simp: validPaymentMethods_def too_long_50_def)

lemma PlaceOrder_ok:
  assumes "int_ok cu" "int_ok b" "int_ok q" "can_place (session_view c) cu b q pm"
  shows "PlaceOrder c cu b q pm =
     (Inr (next_order_id (session_view c), sql_times (select_Price (session_view c) b) q),
      \<lparr>committed = placed (session_view c) cu b q pm, pending = None\<rparr>)"
proof -
  from assms(4) have "\<not> too_long_50 pm"
    by (simp add: can_place_def valid_method_fits)
  with assms show ?thesis
    by (simp add: PlaceOrder_def PlaceOrder_body_ok)
qed

lemma PlaceOrder_Inr:
  assumes "PlaceOrder c cu b q pm = (Inr r, c')"
  shows "int_ok cu \<and> int_ok b \<and> int_ok q \<and> can_place (session_view c) cu b q pm \<and>
         r = (next_order_id (session_view c), sql_times (select_Price (session_view c) b) q) \<and>
         c' = \<lparr>committed = placed (session_view c) cu b q pm, pending = None\<rparr>"
proof -
  from assms have ok: "int_ok cu \<and> int_ok b \<and> int_ok q" and fits: "\<not> too_long_50 pm"
    by (auto simp: PlaceOrder_def split: if_splits)
  obtain res w where body: "PlaceOrder_body (session_view c) cu b q pm = (res, w)"
    by (cases "PlaceOrder_body (session_view c) cu b q pm")
  with assms ok fits have "res = Inr r"
    by (cases res) (auto simp: PlaceOrder_def Let_def)
  with body have cp: "can_place (session_view c) cu b q pm"
    by (auto dest: PlaceOrder_body_Inr)
  with ok assms show ?thesis
    by (auto simp: PlaceOrder_ok)
qed

lemma PlaceOrder_orders:
  "orders (session_view (snd (PlaceOrder c cu b q pm))) = orders (session_view c) \<or>
   orders (session_view (snd (PlaceOrder c cu b q pm))) = orders (session_view c) @
      [\<lparr>order_id = next_order_id (session_view c), customer_id = cu, order_status = ''Pending''\<rparr>]"
proof (cases "int_ok cu \<and> int_ok b \<and> int_ok q \<and> \<not> too_long_50 pm")
  case False
  then show ?thesis by (auto simp: PlaceOrder_def)
next
  case True
  obtain res w where body: "PlaceOrder_body (session_view c) cu b q pm = (res, w)"
    by (cases "PlaceOrder_body (session_view c) cu b q pm")
  have po: "PlaceOrder c cu b q pm =
      (case res of Inl e \<Rightarrow> (Inl e, (start_transaction c)\<lparr>pending := Some w\<rparr>)
       | Inr r \<Rightarrow> (Inr r, \<lparr>committed = w, pending = None\<rparr>))"
    using True body by (simp add: PlaceOrder_def Let_def split: sum.splits)
  have sv: "session_view (snd (PlaceOrder c cu b q pm)) = w"
    by (cases res) (simp_all add: po session_view_def)
  from PlaceOrder_body_orders [of "session_view c" cu b q pm] body sv show ?thesis
    by simp
qed


lemma wf_insert_Orders:
  "wf_db d \<Longrightarrow> insert_Orders d cu = Inr (d', oid) \<Longrightarrow> wf_db d' \<and> oid = next_order_id d"
  by (auto simp: wf_db_def insert_Orders_def order_ids_def list_all_iff split: if_splits option.splits;
      fastforce)

lemma wf_insert_OrderDetails:
  "wf_db d \<Longrightarrow> insert_OrderDetails d oid b q = Inr d' \<Longrightarrow> wf_db d'"
  by (auto simp: wf_db_def insert_OrderDetails_def order_ids_def list_all_iff split: if_splits option.splits)

lemma wf_update_Stock: "wf_db d \<Longrightarrow> wf_db (update_Stock d b q)"
  by (auto simp: wf_db_def update_Stock_def order_ids_def list_all_iff comp_def split: option.splits)

lemma wf_insert_Payments:
  "wf_db d \<Longrightarrow> insert_Payments d oid pm a = Inr d' \<Longrightarrow> wf_db d'"
  by (auto simp: wf_db_def insert_Payments_def order_ids_def list_all_iff split: if_splits option.splits)

lemma wf_insert_OrderLog:
  "wf_db d \<Longrightarrow> insert_OrderLog d oid pm = Inr d' \<Longrightarrow> wf_db d'"
  by (auto simp: wf_db_def insert_OrderLog_def order_ids_def list_all_iff split: if_splits option.splits)

lemma wf_PlaceOrder_body:
  assumes "wf_db d"
  shows "wf_db (snd (PlaceOrder_body d cu b q pm))"
proof (cases "insert_Orders d cu")
  case (Inl e)
  with assms show ?thesis by (simp add: PlaceOrder_body_def)
next
  case (Inr p1)
  then obtain d1 oid where i1: "insert_Orders d cu = Inr (d1, oid)" by (cases p1) simp
  with assms have w1: "wf_db d1" by (auto dest: wf_insert_Orders)
  show ?thesis
  proof (cases "insert_OrderDetails d1 oid b q")
    case (Inl e)
    with i1 w1 show ?thesis by (simp add: PlaceOrder_body_def)
  next
    case (Inr d2)
    with w1 have w3: "wf_db (update_Stock d2 b q)"
      by (auto intro: wf_update_Stock dest: wf_insert_OrderDetails)
    let ?d3 = "update_Stock d2 b q"
    let ?tot = "sql_times (select_Price ?d3 b) q"
    show ?thesis
    proof (cases "decimal_10_2_ok ?tot")
      case False
      with i1 Inr w3 show ?thesis by (simp add: PlaceOrder_body_def Let_def)
    next
      case True
      show ?thesis
      proof (cases "insert_Payments ?d3 oid pm ?tot")
        case (Inl e)
        with i1 Inr True w3 show ?thesis by (simp add: PlaceOrder_body_def Let_def)
      next
        case d4: (Inr d4)
        with w3 have w4: "wf_db d4" by (auto dest: wf_insert_Payments)
        show ?thesis
        proof (cases "insert_OrderLog d4 oid pm")
          case (Inl e)
          with i1 Inr True d4 w4 show ?thesis by (simp add: PlaceOrder_body_def Let_def)
        next
          case d5: (Inr d5)
          with w4 have "wf_db d5" by (auto dest: wf_insert_OrderLog)
          with i1 Inr True d4 d5 show ?thesis by (simp add: PlaceOrder_body_def Let_def)
        qed
      qed
    qed
  qed
qed

lemma wf_placed:
  assumes "wf_db d" "can_place d cu b q pm"
  shows "wf_db (placed d cu b q pm)"
  using wf_PlaceOrder_body [OF assms(1), of cu b q pm] PlaceOrder_body_ok [OF assms(2)] by simp






lemma placed_fields [simp]:
  "customers (placed d cu b q pm) = customers d"
  "next_order_id (placed d cu b q pm) = next_order_id d + 1"
  "map book_id (books (placed d cu b q pm)) = map book_id (books d)"
  "orders (placed d cu b q pm) = orders d @
     [\<lparr>order_id = next_order_id d, customer_id = cu, order_status = ''Pending''\<rparr>]"
  by (simp_all add: placed_def comp_def)

lemma select_Price_placed [simp]: "select_Price (placed d cu b q pm) k = select_Price d k"
  by (rule select_Price_books [of _ b q]) (simp add: placed_def)


lemma sql_sum_single [simp]: "sql_sum [v] = v"
  by (cases v) (simp_all add: sql_sum_def)









lemma place_items_orders_any:
  "\<exists>new. orders (session_view (snd (place_items c cu its pm))) = orders (session_view c) @ new \<and>
         list_all (\<lambda>r. order_status r = ''Pending'') new"
proof (induction its arbitrary: c)
  case Nil
  then show ?case by simp
next
  case (Cons it rest)
  show ?case
  proof (cases "bookId it")
    case None
    then show ?thesis by simp
  next
    case b: (Some b)
    show ?thesis
    proof (cases "quantity it")
      case None
      with b show ?thesis by simp
    next
      case q: (Some q)
      obtain res c1 where po: "PlaceOrder c cu b q pm = (res, c1)"
        by (cases "PlaceOrder c cu b q pm")
      from PlaceOrder_orders [of c cu b q pm] po obtain n1 where
        n1: "orders (session_view c1) = orders (session_view c) @ n1"
            "list_all (\<lambda>r. order_status r = ''Pending'') n1"
        by auto
      show ?thesis
      proof (cases res)
        case (Inl e)
        with b q po n1 show ?thesis by auto
      next
        case (Inr r)
        from Cons.IH [of c1] obtain n2 where
          n2: "orders (session_view (snd (place_items c1 cu rest pm))) = orders (session_view c1) @ n2"
              "list_all (\<lambda>r. order_status r = ''Pending'') n2"
          by auto
        from Inr b q po have "place_items c cu (it # rest) pm = place_items c1 cu rest pm"
          by simp
        with n1 n2 show ?thesis by auto
      qed
    qed
  qed
qed



lemma wf_amount_nonneg:
  assumes "wf_db d" "0 < q"
  shows "case sql_times (select_Price d b) q of None \<Rightarrow> True | Some a \<Rightarrow> 0 \<le> a"
proof (cases "find (\<lambda>bk. book_id bk = b) (books d)")
  case None
  then show ?thesis by (simp add: select_Price_def sql_times_def)
next
  case (Some bk)
  then have "bk \<in> set (books d)"
    by (auto simp: find_Some_iff)
  with assms(1) have "case price bk of None \<Rightarrow> True | Some a \<Rightarrow> 0 \<le> a"
    by (simp add: wf_db_def list_all_iff)
  with Some assms(2) show ?thesis
    by (simp add: select_Price_def sql_times_def split: option.splits)
qed

lemma item_in_range_placed [simp]:
  "item_in_range (placed d cu b q pm) it = item_in_range d it"
  by (simp add: item_in_range_def split: option.splits)

lemma place_items_succeeds:
  assumes "wf_db (session_view c)" "int_ok cu" "cu \<in> set (customers (session_view c))"
    and "pm \<in> set validPaymentMethods"
    and "list_all (\<lambda>it. in_stock (session_view c0) it \<and> item_in_range (session_view c) it) its"
    and "map book_id (books (session_view c)) = map book_id (books (session_view c0))"
    and "- 2147483648 \<le> next_order_id (session_view c)"
    and "next_order_id (session_view c) + int (length its) \<le> 2147483648"
  shows "\<exists>c'. place_items c cu its pm = (None, c')"
  using assms
proof (induction its arbitrary: c)
  case Nil
  then show ?case by simp
next
  case (Cons it rest)
  from Cons.prems(5) obtain b q where it: "bookId it = Some b" "quantity it = Some q"
    and rng: "int_ok b" "int_ok q" "decimal_10_2_ok (sql_times (select_Price (session_view c) b) q)"
    and q: "0 < q"
    and bk0: "list_ex (\<lambda>bk. book_id bk = b \<and> (case stock bk of None \<Rightarrow> False | Some s \<Rightarrow> q \<le> s))
                  (books (session_view c0))"
    by (auto simp: in_stock_def item_in_range_def split: option.splits)
  from bk0 have "b \<in> set (map book_id (books (session_view c0)))"
    by (auto simp: list_ex_iff)
  with Cons.prems(6) have bk: "b \<in> set (map book_id (books (session_view c)))"
    by simp
  from Cons.prems(7,8) have nxt: "int_ok (next_order_id (session_view c))"
    by (simp add: int_ok_def)
  have cp: "can_place (session_view c) cu b q pm"
    using nxt Cons.prems(3,4) q bk rng(3) wf_amount_nonneg [OF Cons.prems(1) q, of b]
    by (simp add: can_place_def)
  let ?c1 = "\<lparr>committed = placed (session_view c) cu b q pm, pending = None\<rparr>"
  have po: "PlaceOrder c cu b q pm =
      (Inr (next_order_id (session_view c), sql_times (select_Price (session_view c) b) q), ?c1)"
    by (rule PlaceOrder_ok [OF Cons.prems(2) rng(1,2) cp])
  have v1: "session_view ?c1 = placed (session_view c) cu b q pm"
    by (simp add: session_view_def)
  have rest_ok: "list_all (\<lambda>it. in_stock (session_view c0) it \<and> item_in_range (session_view ?c1) it) rest"
    using Cons.prems(5) unfolding v1
    by (simp add: list_all_iff)
  have "\<exists>c'. place_items ?c1 cu rest pm = (None, c')"
  proof (rule Cons.IH)
    show "wf_db (session_view ?c1)"
      unfolding v1 by (rule wf_placed [OF Cons.prems(1) cp])
    show "int_ok cu" by (rule Cons.prems(2))
    show "cu \<in> set (customers (session_view ?c1))"
      unfolding v1 using Cons.prems(3) by simp
    show "pm \<in> set validPaymentMethods" by (rule Cons.prems(4))
    show "list_all (\<lambda>it. in_stock (session_view c0) it \<and> item_in_range (session_view ?c1) it) rest"
      by (rule rest_ok)
    show "map book_id (books (session_view ?c1)) = map book_id (books (session_view c0))"
      unfolding v1 using Cons.prems(6) by simp
    show "- 2147483648 \<le> next_order_id (session_view ?c1)"
      unfolding v1 using Cons.prems(7) by simp
    show "next_order_id (session_view ?c1) + int (length rest) \<le> 2147483648"
      unfolding v1 using Cons.prems(8) by simp
  qed
  with it po show ?case by simp
qed

lemma session_view_PlaceOrder:
  "session_view (snd (PlaceOrder c cu b q pm)) =
     (if int_ok cu \<and> int_ok b \<and> int_ok q \<and> \<not> too_long_50 pm
      then snd (PlaceOrder_body (session_view c) cu b q pm) else session_view c)"
proof (cases "int_ok cu \<and> int_ok b \<and> int_ok q \<and> \<not> too_long_50 pm")
  case False
  then show ?thesis by (auto simp: PlaceOrder_def)
next
  case True
  obtain res w where body: "PlaceOrder_body (session_view c) cu b q pm = (res, w)"
    by (cases "PlaceOrder_body (session_view c) cu b q pm")
  have "PlaceOrder c cu b q pm =
      (case res of Inl e \<Rightarrow> (Inl e, (start_transaction c)\<lparr>pending := Some w\<rparr>)
       | Inr r \<Rightarrow> (Inr r, \<lparr>committed = w, pending = None\<rparr>))"
    using True body by (simp add: PlaceOrder_def Let_def split: sum.splits)
  with True body show ?thesis
    by (cases res) (simp_all add: session_view_def)
qed









lemma place_items_step:
  "place_items c cu (it # rest) pm = (Some ER_BAD_FIELD_ERROR, c) \<or>
   (\<exists>b q e. place_items c cu (it # rest) pm = (Some e, snd (PlaceOrder c cu b q pm)) \<and>
            fst (PlaceOrder c cu b q pm) = Inl e) \<or>
   (\<exists>b q r. place_items c cu (it # rest) pm = place_items (snd (PlaceOrder c cu b q pm)) cu rest pm \<and>
            PlaceOrder c cu b q pm = (Inr r, snd (PlaceOrder c cu b q pm)))"
proof (cases "bookId it")
  case None
  then show ?thesis by simp
next
  case b: (Some b)
  show ?thesis
  proof (cases "quantity it")
    case None
    with b show ?thesis by simp
  next
    case q: (Some q)
    obtain res c1 where po: "PlaceOrder c cu b q pm = (res, c1)"
      by (cases "PlaceOrder c cu b q pm")
    show ?thesis
    proof (cases res)
      case (Inl e)
      with b q po have "place_items c cu (it # rest) pm = (Some e, snd (PlaceOrder c cu b q pm)) \<and>
            fst (PlaceOrder c cu b q pm) = Inl e" by simp
      then show ?thesis by blast
    next
      case (Inr r)
      with b q po have "place_items c cu (it # rest) pm = place_items (snd (PlaceOrder c cu b q pm)) cu rest pm \<and>
            PlaceOrder c cu b q pm = (Inr r, snd (PlaceOrder c cu b q pm))" by simp
      then show ?thesis by blast
    qed
  qed
qed






lemma PlaceOrder_body_methods:
  "pay_method ` set (payments (snd (PlaceOrder_body d cu b q pm))) \<subseteq>
     insert pm (pay_method ` set (payments d))"
  unfolding PlaceOrder_body_def insert_Orders_def insert_OrderDetails_def
    insert_Payments_def insert_OrderLog_def Let_def update_Stock_def
  by (auto split: option.splits if_splits)

lemma PlaceOrder_any_methods:
  "pay_method ` set (payments (session_view (snd (PlaceOrder c cu b q pm)))) \<subseteq>
     insert pm (pay_method ` set (payments (session_view c)))"
  using PlaceOrder_body_methods [of "session_view c" cu b q pm]
  by (auto simp: session_view_PlaceOrder)

lemma place_items_any_methods:
  "pay_method ` set (payments (session_view (snd (place_items c cu its pm)))) \<subseteq>
     insert pm (pay_method ` set (payments (session_view c)))"
proof (induction its arbitrary: c)
  case Nil
  then show ?case by auto
next
  case (Cons it rest)
  from place_items_step [of c cu it rest pm] show ?case
  proof (elim disjE exE conjE)
    assume "place_items c cu (it # rest) pm = (Some ER_BAD_FIELD_ERROR, c)"
    then show ?thesis by auto
  next
    fix b q e
    assume "place_items c cu (it # rest) pm = (Some e, snd (PlaceOrder c cu b q pm))"
    with PlaceOrder_any_methods [of c cu b q pm] show ?thesis by simp
  next
    fix b q r
    assume eq: "place_items c cu (it # rest) pm = place_items (snd (PlaceOrder c cu b q pm)) cu rest pm"
    from Cons.IH [of "snd (PlaceOrder c cu b q pm)"] PlaceOrder_any_methods [of c cu b q pm] eq
    show ?thesis by auto
  qed
qed

lemma post_orders_method:
  "snd (post_orders (Some c) req) = Some c \<and> status_code (fst (post_orders (Some c) req)) \<noteq> 201 \<or>
   (\<exists>cu its pm. paymentMethod req = Some pm \<and> pm \<in> set validPaymentMethods \<and>
      snd (post_orders (Some c) req) = Some (snd (place_items c cu its pm)))"
  by (auto simp: post_orders_def json_error_def split: option.splits prod.splits; metis snd_conv)

section \<open>Claims about order placement\<close>

text \<open>
  Claim C1. A line item whose quantity exceeds the book's stock must leave the stock
  unchanged and be answered with 400, the order not being committed. The handler's
  \<open>catch\<close> block does map an error message containing \<open>insufficient stock\<close> to 400,
  but PlaceOrder never raises one: its conditional \<open>UPDATE\<close> matches no row and the
  procedure goes on. Evaluated on the sample database, where book 2 has 100 copies
  and 101 are ordered: the answer is 201, the stock is still 100, and order 4 is
  committed with its line, its payment of 90,900.00 and its log entry.
\<close>

theorem over_stock_order_is_committed:
  "post_orders (Some sample_conn) over_stock_request =
     (json_message 201 ''Order placed successfully'',
      Some \<lparr>committed = placed sample_db 1 2 101 ''Cash'', pending = None\<rparr>) \<and>
   stock_of sample_db 2 = [Some 100] \<and>
   stock_of (placed sample_db 1 2 101 ''Cash'') 2 = [Some 100] \<and>
   details_of (placed sample_db 1 2 101 ''Cash'') 4 =
     [\<lparr>od_order_id = 4, od_book_id = 2, od_quantity = 101\<rparr>] \<and>
   payments_of (placed sample_db 1 2 101 ''Cash'') 4 =
     [\<lparr>pay_order_id = 4, pay_method = ''Cash'', pay_amount = Some 9090000\<rparr>]"
  by code_simp

text \<open>
  Claim C2. When a step inside the transaction fails, the earlier steps of that item
  must be rolled back. PlaceOrder opens a transaction and commits it, but has no
  handler that rolls back: after a failing statement the rows already written stay in
  the transaction left open on the pooled connection, and the next
  \<open>START TRANSACTION\<close> on that connection commits them. Evaluated on the sample
  database: an order for the unknown book 99 is answered with 500 and leaves order 4
  in the open transaction; the next, valid request is answered with 201, and the
  committed database then holds order 4 without any line, payment or log entry beside
  the new order 5.
\<close>

theorem failed_placement_is_not_rolled_back:
  "status_code (fst (post_orders (Some sample_conn) missing_book_request)) = 500 \<and>
   map_option (\<lambda>c. (order_ids (committed c), order_ids (session_view c)))
     (snd (post_orders (Some sample_conn) missing_book_request)) =
     Some ([1, 2, 3], [1, 2, 3, 4]) \<and>
   status_code (fst (post_orders (snd (post_orders (Some sample_conn) missing_book_request))
                       one_unit_request)) = 201 \<and>
   map_option (\<lambda>c. (order_ids (committed c), details_of (committed c) 4,
                     payments_of (committed c) 4, log_of (committed c) 4))
     (snd (post_orders (snd (post_orders (Some sample_conn) missing_book_request))
             one_unit_request)) =
     Some ([1, 2, 3, 4, 5], [], [], [])"
  by code_simp



text \<open>
  Claim C4, as stated, promises a body with the order's orderId and totalAmount. The
  spec's own scenario (customer 1, one copy of the book priced 900.00) is a valid
  request and is answered with 201, but the body has neither key: the handler sends a
  fixed message and drops the row that PlaceOrder selects. And a request that is valid
  in the words of the specification is refused when a line amount does not fit the
  amount column: two copies at 60,000,000.00 are answered with 500.
\<close>

theorem created_body_has_no_order_id:
  "valid_order_request (session_view sample_conn) one_unit_request \<and>
   status_code (fst (post_orders (Some sample_conn) one_unit_request)) = 201 \<and>
   map_of (body (fst (post_orders (Some sample_conn) one_unit_request))) ''orderId'' = None \<and>
   map_of (body (fst (post_orders (Some sample_conn) one_unit_request))) ''totalAmount'' = None \<and>
   request_as_specified (session_view costly_conn) costly_request \<and>
   status_code (fst (post_orders (Some costly_conn) costly_request)) = 500"
  by code_simp

text \<open>
  Claim C4, amended. A valid request, with every number inside its column type and a
  free OrderID for each item, is answered with 201 and the body
  \<open>{message: 'Order placed successfully'}\<close>. The SQL Server variant of the handler
  answers a valid request in the same way whenever its procedure call does not throw.
\<close>

theorem valid_request_is_created:
  assumes "wf_db (session_view c)" and "valid_order_request (session_view c) req"
  shows "fst (post_orders (Some c) req) =
           \<lparr>status_code = 201, body = [(''message'', ''Order placed successfully'')]\<rparr> \<and>
         (\<forall>cu its pm. customerId req = Some cu \<and> items req = Some its \<and>
             paymentMethod req = Some pm \<and>
             fst (exec p cu pm (List.map_filter bookId its) (List.map_filter quantity its)) = None \<longrightarrow>
           fst (post_orders_mssql exec (Some p) req) =
             \<lparr>status_code = 201, body = [(''message'', ''Order placed successfully'')]\<rparr>)"
proof -
  from assms(2) obtain cu its pm where
    f: "customerId req = Some cu" "items req = Some its" "paymentMethod req = Some pm"
    by (auto simp: valid_order_request_def request_as_specified_def split: option.splits)
  from assms(2) f have sp: "cu \<in> set (customers (session_view c))" "its \<noteq> []"
      "list_all (in_stock (session_view c)) its" "pm \<in> set validPaymentMethods"
    and rg: "cu \<noteq> 0" "int_ok cu" "list_all (item_in_range (session_view c)) its"
      "- 2147483648 \<le> next_order_id (session_view c)"
      "next_order_id (session_view c) + int (length its) \<le> 2147483648"
    by (simp_all add: valid_order_request_def request_as_specified_def request_in_range_def)
  from sp(3) rg(3)
  have both: "list_all (\<lambda>it. in_stock (session_view c) it \<and> item_in_range (session_view c) it) its"
    by (simp add: list_all_iff)
  from place_items_succeeds [OF assms(1) rg(2) sp(1) sp(4) both refl rg(4) rg(5)]
  obtain c' where ok: "place_items c cu its pm = (None, c')" by blast
  from both have good: "\<not> list_ex bad_item its"
    by (auto simp: list_all_iff list_ex_iff bad_item_def falsy_num_def in_stock_def
        item_in_range_def split: option.splits)
  from sp(4) have "pm \<noteq> []"
    by (auto simp: validPaymentMethods_def)
  with f sp rg(1) good ok
  have my: "fst (post_orders (Some c) req) =
           \<lparr>status_code = 201, body = [(''message'', ''Order placed successfully'')]\<rparr>"
    by (simp add: post_orders_def falsy_num_def falsy_str_def no_items_def json_message_def)
  from f sp rg(1) good \<open>pm \<noteq> []\<close>
  have ms: "fst (post_orders_mssql exec (Some p) req) =
             \<lparr>status_code = 201, body = [(''message'', ''Order placed successfully'')]\<rparr>"
    if "fst (exec p cu pm (List.map_filter bookId its) (List.map_filter quantity its)) = None"
    using that
    by (cases "exec p cu pm (List.map_filter bookId its) (List.map_filter quantity its)")
      (simp add: post_orders_mssql_def falsy_num_def falsy_str_def no_items_def json_message_def)
  from my ms f show ?thesis by auto
qed

theorem valid_request_is_created_witness:
  "wf_db (session_view sample_conn) \<and>
   valid_order_request (session_view sample_conn) two_item_request \<and>
   fst (post_orders (Some sample_conn) two_item_request) =
     \<lparr>status_code = 201, body = [(''message'', ''Order placed successfully'')]\<rparr>"
proof -
  have h1: "wf_db (session_view sample_conn)" by code_simp
  have h2: "valid_order_request (session_view sample_conn) two_item_request" by code_simp
  from valid_request_is_created [OF h1 h2, of "\<lambda>p cu pm bs qs. (None, p)" "()"] h1 h2
  show ?thesis by blast
qed





text \<open>
  Claim C7. A request whose paymentMethod is not one of SadaPay, EasyPaisa, JazzCash,
  Card and Cash (or is absent) is answered with 400 and the connection is left exactly
  as it was, in both variants of the handler. Whatever a request does, every method it
  adds to Payments is one of the five, and a request answered with 201 named one of
  them.
\<close>

theorem invalid_method_rejected:
  "(paymentMethod req \<notin> Some ` {''SadaPay'', ''EasyPaisa'', ''JazzCash'', ''Card'', ''Cash''} \<longrightarrow>
      status_code (fst (post_orders (Some c) req)) = 400 \<and>
      snd (post_orders (Some c) req) = Some c \<and>
      status_code (fst (post_orders_mssql exec (Some p) req)) = 400 \<and>
      snd (post_orders_mssql exec (Some p) req) = Some p) \<and>
   (\<forall>c'. snd (post_orders (Some c) req) = Some c' \<longrightarrow>
      pay_method ` set (payments (session_view c')) \<subseteq>
        pay_method ` set (payments (session_view c)) \<union>
        {''SadaPay'', ''EasyPaisa'', ''JazzCash'', ''Card'', ''Cash''}) \<and>
   (status_code (fst (post_orders (Some c) req)) = 201 \<longrightarrow>
      paymentMethod req \<in> Some ` {''SadaPay'', ''EasyPaisa'', ''JazzCash'', ''Card'', ''Cash''})"
proof -
  have vs: "set validPaymentMethods = {''SadaPay'', ''EasyPaisa'', ''JazzCash'', ''Card'', ''Cash''}"
    by (auto simp: validPaymentMethods_def)
  have a: "status_code (fst (post_orders (Some c) req)) = 400 \<and>
      snd (post_orders (Some c) req) = Some c \<and>
      status_code (fst (post_orders_mssql exec (Some p) req)) = 400 \<and>
      snd (post_orders_mssql exec (Some p) req) = Some p"
    if "paymentMethod req \<notin> Some ` {''SadaPay'', ''EasyPaisa'', ''JazzCash'', ''Card'', ''Cash''}"
    using that unfolding vs [symmetric]
    by (auto simp: post_orders_def post_orders_mssql_def json_error_def split: option.splits)
  have b: "pay_method ` set (payments (session_view c')) \<subseteq>
        pay_method ` set (payments (session_view c)) \<union>
        {''SadaPay'', ''EasyPaisa'', ''JazzCash'', ''Card'', ''Cash''}"
    if "snd (post_orders (Some c) req) = Some c'" for c'
    using post_orders_method [of c req]
  proof
    assume "snd (post_orders (Some c) req) = Some c \<and>
      status_code (fst (post_orders (Some c) req)) \<noteq> 201"
    with that show ?thesis by auto
  next
    assume "\<exists>cu its pm. paymentMethod req = Some pm \<and> pm \<in> set validPaymentMethods \<and>
      snd (post_orders (Some c) req) = Some (snd (place_items c cu its pm))"
    then obtain cu its pm where pm: "pm \<in> set validPaymentMethods"
      and run: "snd (post_orders (Some c) req) = Some (snd (place_items c cu its pm))"
      by blast
    from run that have "c' = snd (place_items c cu its pm)" by simp
    with place_items_any_methods [of c cu its pm] pm show ?thesis
      unfolding vs [symmetric] by auto
  qed
  have d: "paymentMethod req \<in> Some ` {''SadaPay'', ''EasyPaisa'', ''JazzCash'', ''Card'', ''Cash''}"
    if "status_code (fst (post_orders (Some c) req)) = 201"
    using post_orders_method [of c req] that unfolding vs [symmetric] by auto
  from a b d show ?thesis by blast
qed

theorem invalid_method_rejected_witness:
  "paymentMethod bitcoin_request = Some ''Bitcoin'' \<and>
   status_code (fst (post_orders (Some sample_conn) bitcoin_request)) = 400 \<and>
   snd (post_orders (Some sample_conn) bitcoin_request) = Some sample_conn \<and>
   status_code (fst (post_orders (Some sample_conn) one_unit_request)) = 201 \<and>
   paymentMethod one_unit_request \<in> Some ` {''SadaPay'', ''EasyPaisa'', ''JazzCash'', ''Card'', ''Cash''}"
proof -
  have h1: "paymentMethod bitcoin_request = Some ''Bitcoin''"
    by (simp add: bitcoin_request_def order_for_def)
  have h2: "paymentMethod bitcoin_request \<notin> Some ` {''SadaPay'', ''EasyPaisa'', ''JazzCash'', ''Card'', ''Cash''}"
    by (simp add: h1)
  have h3: "status_code (fst (post_orders (Some sample_conn) one_unit_request)) = 201"
    by code_simp
  from invalid_method_rejected [of bitcoin_request sample_conn "\<lambda>p cu pm bs qs. (None, p)" "()"]
    invalid_method_rejected [of one_unit_request sample_conn "\<lambda>p cu pm bs qs. (None, p)" "()"]
    h1 h2 h3
  show ?thesis by blast
qed

text \<open>
  Claim C8. A call of PlaceOrder leaves the Orders table as it was or adds one row,
  with the default status Pending; when the call succeeds, the committed table is the
  old one followed by the new Pending row. A whole request, whatever its outcome, only
  appends Pending rows: no existing row is changed, so no status transition happens.
\<close>

theorem placement_creates_pending:
  "(orders (session_view (snd (PlaceOrder c cu b q pm))) = orders (session_view c) \<or>
    orders (session_view (snd (PlaceOrder c cu b q pm))) = orders (session_view c) @
      [\<lparr>order_id = next_order_id (session_view c), customer_id = cu, order_status = ''Pending''\<rparr>]) \<and>
   (\<forall>r c'. PlaceOrder c cu b q pm = (Inr r, c') \<longrightarrow>
      orders (committed c') = orders (session_view c) @
        [\<lparr>order_id = fst r, customer_id = cu, order_status = ''Pending''\<rparr>]) \<and>
   (\<exists>new. orders (session_view (snd (place_items c cu its pm))) = orders (session_view c) @ new \<and>
          list_all (\<lambda>r. order_status r = ''Pending'') new)"
proof -
  have "orders (committed c') = orders (session_view c) @
        [\<lparr>order_id = fst r, customer_id = cu, order_status = ''Pending''\<rparr>]"
    if "PlaceOrder c cu b q pm = (Inr r, c')" for r c'
    using PlaceOrder_Inr [OF that] by simp
  with PlaceOrder_orders [of c cu b q pm] place_items_orders_any [of c cu its pm]
  show ?thesis by blast
qed

theorem placement_creates_pending_witness:
  "PlaceOrder sample_conn 1 2 1 ''Cash'' = (Inr (4, Some 90000), after_one_unit) \<and>
   orders (committed after_one_unit) = orders (session_view sample_conn) @
        [\<lparr>order_id = 4, customer_id = 1, order_status = ''Pending''\<rparr>]"
proof -
  have h: "PlaceOrder sample_conn 1 2 1 ''Cash'' = (Inr (4, Some 90000), after_one_unit)"
    by code_simp
  from placement_creates_pending [of sample_conn 1 2 1 "''Cash''" "[]"] h show ?thesis
    by auto
qed



section \<open>Claims about the status update\<close>

text \<open>
  Claim C10, as stated, says that every non-empty status text is answered with 200.
  The column is \<open>VARCHAR(50)\<close>: on the sample database a status of 51 letters for
  the existing order 1 is answered with 500.
\<close>

theorem status_update_too_long:
  "status_code (fst (put_order_status (Some sample_conn) (Some 1)
                       (Some (replicate 51 (CHR ''x''))))) = 500"
  by code_simp

text \<open>
  Claim C10, amended. For a numeric id and a non-empty status text that has at most 50
  characters, or when no order has that id, the answer is 200 with the message
  \<open>Order status updated successfully\<close>: whether an order with that id exists is not
  looked at, and neither the value of the status nor the order's present status is.
  The text is stored as it is in every order with that id.
\<close>

theorem status_update_unchecked:
  assumes "s \<noteq> []" and "length s \<le> 50 \<or> oid \<notin> set (order_ids (session_view c))"
  shows "fst (put_order_status (Some c) (Some oid) (Some s)) =
           \<lparr>status_code = 200, body = [(''message'', ''Order status updated successfully'')]\<rparr> \<and>
         map_option (\<lambda>c'. orders (session_view c')) (snd (put_order_status (Some c) (Some oid) (Some s))) =
           Some (map (\<lambda>r. if order_id r = oid then r\<lparr>order_status := take 50 s\<rparr> else r)
                     (orders (session_view c)))"
proof -
  have "\<not> (list_ex (\<lambda>r. order_id r = oid) (orders (session_view c)) \<and> too_long_50 s)"
    using assms(2) by (auto simp: too_long_50_def list_ex_iff order_ids_def)
  then show ?thesis
    using assms(1)
    by (auto simp: put_order_status_def pool_query_def update_Status_def session_view_def
        split: option.splits)
qed

theorem status_update_unchecked_witness:
  "''Shipped'' \<noteq> [] \<and> 77 \<notin> set (order_ids (session_view sample_conn)) \<and>
   fst (put_order_status (Some sample_conn) (Some 77) (Some ''Shipped'')) =
     \<lparr>status_code = 200, body = [(''message'', ''Order status updated successfully'')]\<rparr> \<and>
   fst (put_order_status (Some sample_conn) (Some 1) (Some ''Pending'')) =
     \<lparr>status_code = 200, body = [(''message'', ''Order status updated successfully'')]\<rparr>"
proof -
  have h1: "''Shipped'' \<noteq> []" "''Pending'' \<noteq> []" by simp_all
  have h2: "length ''Shipped'' \<le> 50 \<or> 77 \<notin> set (order_ids (session_view sample_conn))"
    "length ''Pending'' \<le> 50 \<or> 1 \<notin> set (order_ids (session_view sample_conn))" by simp_all
  have h3: "77 \<notin> set (order_ids (session_view sample_conn))" by code_simp
  from status_update_unchecked [OF h1(1) h2(1)] status_update_unchecked [OF h1(2) h2(2)] h1 h3
  show ?thesis by blast
qed

end
